theory Spec2Isabelle
  imports Complex_Main
begin

section \<open>Python strings\<close>

text \<open>
  A Python \<open>str\<close> is modelled as a \<open>string\<close>, one \<open>char\<close> per code point, so the
  model covers the code points 0 to 255. \<open>len\<close> is \<open>length\<close>, a string is truthy when
  it is not empty, and \<open>None\<close> is the \<open>None\<close> of an option type.
\<close>

definition str_truthy :: "string option \<Rightarrow> bool" where
  "str_truthy v = (case v of None \<Rightarrow> False | Some x \<Rightarrow> x \<noteq> [])"

text \<open>\<open>s.replace(c, "")\<close> for a one-character \<open>c\<close>: every occurrence of \<open>c\<close> is dropped.\<close>

definition replace_with_empty :: "char \<Rightarrow> string \<Rightarrow> string" where
  "replace_with_empty c s = filter (\<lambda>x. x \<noteq> c) s"

text \<open>\<open>s[-4:]\<close>: the last four characters, or all of \<open>s\<close> when it is shorter.\<close>

definition last4 :: "string \<Rightarrow> string" where
  "last4 s = drop (length s - 4) s"

text \<open>
  \<open>str.isspace\<close> on one character, for the code points below 256: tab to carriage return,
  the four separators 28 to 31, the space, NEL (133) and the no-break space (160).
\<close>

definition isspace :: "char \<Rightarrow> bool" where
  "isspace c = (let n = (of_char c :: nat) in
     (9 \<le> n \<and> n \<le> 13) \<or> (28 \<le> n \<and> n \<le> 32) \<or> n = 133 \<or> n = 160)"

definition strip :: "string \<Rightarrow> string" where
  "strip s = rev (dropWhile isspace (rev (dropWhile isspace s)))"

text \<open>
  \<open>str.lower\<close>, for the code points below 256: the letters A to Z and the Latin-1 capitals
  192 to 222 (without the multiplication sign 215) move up by 32.
\<close>

definition lower_char :: "char \<Rightarrow> char" where
  "lower_char c = (let n = (of_char c :: nat) in
     if (65 \<le> n \<and> n \<le> 90) \<or> (192 \<le> n \<and> n \<le> 222 \<and> n \<noteq> 215)
     then char_of (n + 32) else c)"

definition lower :: "string \<Rightarrow> string" where
  "lower s = map lower_char s"

text \<open>\<open>sub in s\<close>: \<open>sub\<close> occurs in \<open>s\<close> as a contiguous substring.\<close>

fun startswith :: "string \<Rightarrow> string \<Rightarrow> bool" where
  "startswith s [] = True"
| "startswith [] (p # ps) = False"
| "startswith (c # cs) (p # ps) = (c = p \<and> startswith cs ps)"

fun str_in :: "string \<Rightarrow> string \<Rightarrow> bool" where
  "str_in sub [] = (sub = [])"
| "str_in sub (c # cs) = (startswith (c # cs) sub \<or> str_in sub cs)"

section \<open>Key masking\<close>

text \<open>
  \<^verbatim>\<open>
  def _mask_key(key: Optional[str]) -> Optional[str]:
      if not key:
          return None
      stripped = key.replace("-", "").replace(" ", "")
      if len(stripped) <= 4:
          return stripped
      return f"***{stripped[-4:]}"
  \<close>
\<close>

definition mask_key :: "string option \<Rightarrow> string option" where
  "mask_key key =
     (case key of
        None \<Rightarrow> None
      | Some k \<Rightarrow>
          if k = [] then None
          else let stripped = replace_with_empty (CHR '' '') (replace_with_empty (CHR ''-'') k)
               in if length stripped \<le> 4 then Some stripped
                  else Some (''***'' @ last4 stripped))"

section \<open>Naive datetimes\<close>

text \<open>
  \<open>_now()\<close> returns \<open>datetime.utcnow()\<close>, a naive datetime. Every function below that
  reads the clock takes the value read as an argument, one argument per call of \<open>_now()\<close>.
  A datetime is its seven fields; Python compares two naive datetimes field by field in
  the order year, month, day, hour, minute, second, microsecond.
\<close>

record datetime =
  year :: nat
  month :: nat
  day :: nat
  hour :: nat
  minute :: nat
  second :: nat
  microsecond :: nat

fun lex_less :: "nat list \<Rightarrow> nat list \<Rightarrow> bool" where
  "lex_less (x # xs) (y # ys) = (x < y \<or> (x = y \<and> lex_less xs ys))"
| "lex_less _ _ = False"

definition dt_fields :: "datetime \<Rightarrow> nat list" where
  "dt_fields d = [year d, month d, day d, hour d, minute d, second d, microsecond d]"

definition dt_less :: "datetime \<Rightarrow> datetime \<Rightarrow> bool" where
  "dt_less a b = lex_less (dt_fields a) (dt_fields b)"

text \<open>Decimal digits of a number, padded with zeros to a width (\<open>%04d\<close>, \<open>%02d\<close>).\<close>

definition digit :: "nat \<Rightarrow> char" where
  "digit n = ''0123456789'' ! (n mod 10)"

fun decimal :: "nat \<Rightarrow> string" where
  "decimal n = (if n < 10 then [digit n] else decimal (n div 10) @ [digit n])"

declare decimal.simps [simp del]

definition zero_pad :: "nat \<Rightarrow> nat \<Rightarrow> string" where
  "zero_pad w n = replicate (w - length (decimal n)) (CHR ''0'') @ decimal n"

text \<open>
  The date part of \<open>isoformat()\<close>, which Python writes itself as
  \<open>"%04d-%02d-%02d"\<close>: a date in the form YYYY-MM-DD.
\<close>

definition isoformat_date :: "datetime \<Rightarrow> string" where
  "isoformat_date d =
     zero_pad 4 (year d) @ ''-'' @ zero_pad 2 (month d) @ ''-'' @ zero_pad 2 (day d)"

text \<open>
  \<open>d.strftime("%Y-%m-%d")\<close> is written by the C library of the platform. \<open>%m\<close> and
  \<open>%d\<close> have two digits everywhere. \<open>%Y\<close> is padded with zeros to four digits on
  some platforms, while glibc writes the year without leading zeros, so that the year
  999 gives \<open>999\<close>. The first argument says whether the platform pads.
\<close>

definition strftime_Ymd :: "bool \<Rightarrow> datetime \<Rightarrow> string" where
  "strftime_Ymd pads d =
     (if pads then zero_pad 4 (year d) else decimal (year d)) @ ''-'' @
     zero_pad 2 (month d) @ ''-'' @ zero_pad 2 (day d)"

text \<open>The number that a string of decimal digits denotes.\<close>

definition digit_value :: "char \<Rightarrow> nat" where
  "digit_value c = of_char c - 48"

definition decimal_value :: "string \<Rightarrow> nat" where
  "decimal_value s = foldl (\<lambda>a c. 10 * a + digit_value c) 0 s"

text \<open>
  \<open>d.isoformat()\<close>: date, \<open>T\<close>, time, and the microseconds only when they are not zero.
\<close>

definition isoformat :: "datetime \<Rightarrow> string" where
  "isoformat d =
     isoformat_date d @ ''T'' @ zero_pad 2 (hour d) @ '':'' @ zero_pad 2 (minute d) @ '':'' @
     zero_pad 2 (second d) @
     (if microsecond d = 0 then [] else ''.'' @ zero_pad 6 (microsecond d))"

text \<open>
  The difference of two datetimes is a \<open>timedelta\<close>, built from the difference of the
  proleptic Gregorian ordinals, of the seconds of the day and of the microseconds, and
  normalised by the constructor.
\<close>

definition is_leap :: "int \<Rightarrow> bool" where
  "is_leap y = (y mod 4 = 0 \<and> (y mod 100 \<noteq> 0 \<or> y mod 400 = 0))"

definition days_before_year :: "int \<Rightarrow> int" where
  "days_before_year y = (let y1 = y - 1 in y1 * 365 + y1 div 4 - y1 div 100 + y1 div 400)"

definition DAYS_BEFORE_MONTH :: "int list" where
  "DAYS_BEFORE_MONTH = [-1, 0, 31, 59, 90, 120, 151, 181, 212, 243, 273, 304, 334]"

definition days_before_month :: "int \<Rightarrow> nat \<Rightarrow> int" where
  "days_before_month y m =
     (if m < length DAYS_BEFORE_MONTH then DAYS_BEFORE_MONTH ! m else 0) +
     (if m > 2 \<and> is_leap y then 1 else 0)"

definition ymd2ord :: "nat \<Rightarrow> nat \<Rightarrow> nat \<Rightarrow> int" where
  "ymd2ord y m d = days_before_year (int y) + days_before_month (int y) m + int d"

definition toordinal :: "datetime \<Rightarrow> int" where
  "toordinal d = ymd2ord (year d) (month d) (day d)"

record timedelta =
  days :: int
  seconds :: int
  microseconds :: int

definition mk_timedelta :: "int \<Rightarrow> int \<Rightarrow> int \<Rightarrow> timedelta" where
  "mk_timedelta d s us =
     (let s1 = s + us div 1000000
      in \<lparr>days = d + s1 div 86400, seconds = s1 mod 86400, microseconds = us mod 1000000\<rparr>)"

definition dt_sub :: "datetime \<Rightarrow> datetime \<Rightarrow> timedelta" where
  "dt_sub a b =
     mk_timedelta (toordinal a - toordinal b)
       ((int (second a) + int (minute a) * 60 + int (hour a) * 3600) -
        (int (second b) + int (minute b) * 60 + int (hour b) * 3600))
       (int (microsecond a) - int (microsecond b))"

text \<open>
  \<open>total_seconds()\<close> divides the microseconds of the timedelta by \<open>10**6\<close>. The
  quotient is kept exact here: Python rounds it to the nearest float, and the test
  \<open>> 3600\<close> gives the same answer on both, since an integer number of microseconds
  above \<open>3600 * 10**6\<close> lies at least \<open>10**-6\<close> above 3600.
\<close>

definition total_seconds :: "timedelta \<Rightarrow> real" where
  "total_seconds t =
     real_of_int ((days t * 86400 + seconds t) * 1000000 + microseconds t) / 1000000"

section \<open>License records and the external collaborators\<close>

text \<open>
  \<open>LicenseKey\<close>, \<open>Key.activate\<close>, \<open>Helpers.IsOnRightMachine\<close>,
  \<open>Helpers.GetMachineCode\<close>, \<open>LicenseKey.load_from_string\<close> and
  \<open>save_as_string\<close> belong to the licensing library, not to this program. The record
  below holds the attributes of a \<open>LicenseKey\<close> that the program reads or writes; the
  library's functions, the configuration constants of \<open>config.py\<close> and the outcome of
  each file operation are the fields of an environment that every operation receives.
\<close>

record customer =
  Name :: "string option"
  Email :: "string option"

record license_key =
  product_id :: int
  key :: string
  created :: "datetime option"
  expires :: "datetime option"
  block :: bool
  customer :: "customer option"
  activated_machines :: "string list option"
  max_no_of_machines :: "int option"
  sign_date :: "datetime option"

text \<open>
  What becomes of \<open>open("w")\<close> followed by \<open>fh.write(self._license.save_as_string())\<close>:
  \<open>open\<close> raises and the file is untouched; \<open>open\<close> has emptied the file and
  \<open>save_as_string\<close> raises; \<open>write\<close> raises after some characters; or all is written.
\<close>

datatype write_outcome = OpenRaises | SaveAsStringRaises | WriteRaises nat | Written

record env =
  LICENSE_ACCESS_TOKEN :: "string option"
  LICENSE_RSA_PUBLIC_KEY :: "string option"
  LICENSE_PRODUCT_ID :: int
  Key_activate :: "string \<Rightarrow> string \<Rightarrow> int \<Rightarrow> string \<Rightarrow> string \<Rightarrow> license_key option \<times> string option"
  IsOnRightMachine :: "license_key \<Rightarrow> bool"
  GetMachineCode :: string
  load_from_string :: "string \<Rightarrow> string \<Rightarrow> int \<Rightarrow> license_key option"
  save_as_string :: "license_key \<Rightarrow> string"
  read_ok :: bool
  write_outcome :: write_outcome
  unlink_ok :: bool
  strftime_pads_year :: bool

datatype license_error = LicenseError string

text \<open>
  \<^verbatim>\<open>
  def get_rsa_key() -> str:
      if config.LICENSE_RSA_PUBLIC_KEY:
          return config.LICENSE_RSA_PUBLIC_KEY
      raise LicenseError("RSA public key not configured. ...")
  \<close>
\<close>

definition rsa_key_message :: string where
  "rsa_key_message =
     ''RSA public key not configured. Please set LICENSE_RSA_PUBLIC_KEY in config.py or '' @
     ''BEATCHECKER_LICENSE_RSA_KEY environment variable. Get your key from '' @
     ''https://app.cryptolens.io/User/Security''"

definition get_rsa_key :: "env \<Rightarrow> license_error + string" where
  "get_rsa_key e =
     (case LICENSE_RSA_PUBLIC_KEY e of
        None \<Rightarrow> Inl (LicenseError rsa_key_message)
      | Some k \<Rightarrow> if k = [] then Inl (LicenseError rsa_key_message) else Inr k)"

section \<open>The license manager\<close>

text \<open>
  The attributes of a \<open>LicenseManager\<close>, and with them the content of the file at
  \<open>_storage_path\<close> (\<open>None\<close> when the file does not exist). The lock is not modelled:
  each operation runs alone, from one state to the next.
\<close>

record manager =
  machine_code :: string
  license :: "license_key option"
  license_string :: "string option"
  last_refresh :: "datetime option"
  storage_file :: "string option"

text \<open>\<open>expires and expires < now\<close>: a datetime is always truthy, \<open>None\<close> never.\<close>

definition is_past :: "datetime option \<Rightarrow> datetime \<Rightarrow> bool" where
  "is_past ex now = (case ex of None \<Rightarrow> False | Some d \<Rightarrow> dt_less d now)"

text \<open>
  \<^verbatim>\<open>
  def _is_active_unlocked(self) -> bool:
      if not self._license:
          return False
      if self._license.block:
          return False
      if self._license.expires and self._license.expires < _now():
          return False
      return Helpers.IsOnRightMachine(self._license, v=2)
  \<close>
\<close>

definition is_active_unlocked :: "env \<Rightarrow> datetime \<Rightarrow> manager \<Rightarrow> bool" where
  "is_active_unlocked e now s =
     (case license s of
        None \<Rightarrow> False
      | Some lic \<Rightarrow>
          if block lic then False
          else if is_past (expires lic) now then False
          else IsOnRightMachine e lic)"

definition is_active :: "env \<Rightarrow> datetime \<Rightarrow> manager \<Rightarrow> bool" where
  "is_active e now s = is_active_unlocked e now s"

text \<open>
  \<^verbatim>\<open>
  def _inactive_reason_unlocked(self) -> str:
      if not self._license:
          return "BeatChecker is not activated. Please enter a license key."
      if self._license.block:
          return "Your license has been blocked. Please contact support."
      if self._license.expires and self._license.expires < _now():
          expired = self._license.expires.strftime("%Y-%m-%d")
          return f"Your license expired on {expired}."
      if not Helpers.IsOnRightMachine(self._license, v=2):
          return "This license is not activated on this machine."
      return "BeatChecker is not activated."
  \<close>
\<close>

definition inactive_reason_unlocked :: "env \<Rightarrow> datetime \<Rightarrow> manager \<Rightarrow> string" where
  "inactive_reason_unlocked e now s =
     (case license s of
        None \<Rightarrow> ''BeatChecker is not activated. Please enter a license key.''
      | Some lic \<Rightarrow>
          if block lic then ''Your license has been blocked. Please contact support.''
          else (case expires lic of
                  Some d \<Rightarrow>
                    if dt_less d now
                    then ''Your license expired on '' @ strftime_Ymd (strftime_pads_year e) d @ ''.''
                    else if \<not> IsOnRightMachine e lic
                         then ''This license is not activated on this machine.''
                         else ''BeatChecker is not activated.''
                | None \<Rightarrow>
                    if \<not> IsOnRightMachine e lic
                    then ''This license is not activated on this machine.''
                    else ''BeatChecker is not activated.''))"

definition inactive_reason :: "env \<Rightarrow> datetime \<Rightarrow> manager \<Rightarrow> string" where
  "inactive_reason e now s = inactive_reason_unlocked e now s"

text \<open>
  \<^verbatim>\<open>
  def _should_refresh(self) -> bool:
      if not self._license_string:
          return False
      if self._license and self._license.block:
          return False
      if not self._last_refresh:
          return True
      time_since_refresh = _now() - self._last_refresh
      return time_since_refresh.total_seconds() > 3600
  \<close>
\<close>

definition should_refresh :: "datetime \<Rightarrow> manager \<Rightarrow> bool" where
  "should_refresh now s =
     (if \<not> str_truthy (license_string s) then False
      else if (case license s of None \<Rightarrow> False | Some lic \<Rightarrow> block lic) then False
      else case last_refresh s of
             None \<Rightarrow> True
           | Some t \<Rightarrow> total_seconds (dt_sub now t) > 3600)"

text \<open>
  \<^verbatim>\<open>
  def _save_state(self) -> None:
      if not self._license:
          return
      try:
          with self._storage_path.open("w", encoding="utf-8") as fh:
              fh.write(self._license.save_as_string())
      except Exception as exc:
          logger.error("Failed to persist license state: %s", exc)
  \<close>
  An exception is caught and logged. \<open>open("w")\<close> creates or empties the file before
  \<open>save_as_string()\<close> is evaluated and before anything is written, so only a failing
  \<open>open\<close> leaves the old content.
\<close>

definition save_state :: "env \<Rightarrow> manager \<Rightarrow> manager" where
  "save_state e s =
     (case license s of
        None \<Rightarrow> s
      | Some lic \<Rightarrow>
          (case write_outcome e of
             OpenRaises \<Rightarrow> s
           | SaveAsStringRaises \<Rightarrow> s\<lparr>storage_file := Some []\<rparr>
           | WriteRaises n \<Rightarrow> s\<lparr>storage_file := Some (take n (save_as_string e lic))\<rparr>
           | Written \<Rightarrow> s\<lparr>storage_file := Some (save_as_string e lic)\<rparr>))"

text \<open>
  \<^verbatim>\<open>
  def _load_state(self) -> None:
      if not self._storage_path.exists():
          return
      try:
          with self._storage_path.open("r", encoding="utf-8") as fh:
              license_data = fh.read()
          if license_data.strip():
              self._license = LicenseKey.load_from_string(get_rsa_key(), license_data, 30)
              if self._license:
                  self._license_string = self._license.key
      except Exception as exc:
          self._license = None
          self._license_string = None
  \<close>
\<close>

definition load_state :: "env \<Rightarrow> manager \<Rightarrow> manager" where
  "load_state e s =
     (case storage_file s of
        None \<Rightarrow> s
      | Some license_data \<Rightarrow>
          if \<not> read_ok e then s\<lparr>license := None, license_string := None\<rparr>
          else if strip license_data = [] then s
          else (case get_rsa_key e of
                  Inl err \<Rightarrow> s\<lparr>license := None, license_string := None\<rparr>
                | Inr rsa \<Rightarrow>
                    (case load_from_string e rsa license_data 30 of
                       None \<Rightarrow> s\<lparr>license := None\<rparr>
                     | Some lic \<Rightarrow> s\<lparr>license := Some lic, license_string := Some (key lic)\<rparr>)))"

text \<open>
  \<^verbatim>\<open>
  def __init__(self, storage_path: Optional[pathlib.Path] = None) -> None:
      ...
      self._machine_code = Helpers.GetMachineCode(v=2)
      self._license = None
      self._license_string = None
      self._last_refresh = None
      self._load_state()
  \<close>
  The second argument is the content of the file at the storage path when the manager
  is built.
\<close>

definition LicenseManager :: "env \<Rightarrow> string option \<Rightarrow> manager" where
  "LicenseManager e file =
     load_state e
       \<lparr>machine_code = GetMachineCode e, license = None, license_string = None,
        last_refresh = None, storage_file = file\<rparr>"

text \<open>\<open>result[1] if result[1] else default\<close>\<close>

definition error_msg :: "string option \<Rightarrow> string \<Rightarrow> string" where
  "error_msg m dflt = (case m of None \<Rightarrow> dflt | Some t \<Rightarrow> if t = [] then dflt else t)"

text \<open>
  \<^verbatim>\<open>
  def activate(self, license_key: str) -> None:
      key = (license_key or "").strip()
      if not key:
          raise LicenseError("A license key is required.")
      if not config.LICENSE_ACCESS_TOKEN:
          raise LicenseError("Licensing is not configured. Missing access token.")
      result = Key.activate(token=config.LICENSE_ACCESS_TOKEN, rsa_pub_key=get_rsa_key(),
          product_id=config.LICENSE_PRODUCT_ID, key=key, machine_code=self._machine_code)
      if result[0] is None:
          error_msg = result[1] if result[1] else "License activation failed."
          raise LicenseError(error_msg)
      if not Helpers.IsOnRightMachine(result[0], v=2):
          raise LicenseError("This license cannot be activated on this machine.")
      expires_at = result[0].expires
      if expires_at and expires_at < _now():
          formatted = expires_at.strftime("%Y-%m-%d")
          raise LicenseError(f"This license expired on {formatted} and cannot be activated.")
      with self._lock:
          self._license = result[0]
          self._license_string = self._license.key
          self._last_refresh = _now()
          self._save_state()
  \<close>
  \<open>trimmed\<close> is \<open>(license_key or "").strip()\<close>. An operation returns the exception it
  raised (\<open>Inl\<close>) or \<open>Inr ()\<close>, and the state it leaves behind in both cases. \<open>now_check\<close> is the clock read by the expiry test,
  \<open>now_commit\<close> the one read by the commit.
\<close>

definition trimmed :: "string option \<Rightarrow> string" where
  "trimmed license_key = strip (case license_key of None \<Rightarrow> [] | Some x \<Rightarrow> x)"

definition activate ::
  "env \<Rightarrow> datetime \<Rightarrow> datetime \<Rightarrow> string option \<Rightarrow> manager \<Rightarrow> (license_error + unit) \<times> manager"
where
  "activate e now_check now_commit license_key s =
     (let k = trimmed license_key in
      if k = [] then (Inl (LicenseError ''A license key is required.''), s)
      else (case LICENSE_ACCESS_TOKEN e of
              None \<Rightarrow> (Inl (LicenseError ''Licensing is not configured. Missing access token.''), s)
            | Some token \<Rightarrow>
                if token = []
                then (Inl (LicenseError ''Licensing is not configured. Missing access token.''), s)
                else (case get_rsa_key e of
                        Inl err \<Rightarrow> (Inl err, s)
                      | Inr rsa \<Rightarrow>
                          (let result = Key_activate e token rsa (LICENSE_PRODUCT_ID e) k
                                          (machine_code s)
                           in case fst result of
                                None \<Rightarrow>
                                  (Inl (LicenseError
                                     (error_msg (snd result) ''License activation failed.'')), s)
                              | Some r \<Rightarrow>
                                  if \<not> IsOnRightMachine e r
                                  then (Inl (LicenseError
                                          ''This license cannot be activated on this machine.''), s)
                                  else (case expires r of
                                          Some d \<Rightarrow>
                                            if dt_less d now_check
                                            then (Inl (LicenseError (''This license expired on '' @
                                                    strftime_Ymd (strftime_pads_year e) d @
                                                    '' and cannot be activated.'')), s)
                                            else (Inr (), save_state e
                                                    (s\<lparr>license := Some r,
                                                       license_string := Some (key r),
                                                       last_refresh := Some now_commit\<rparr>))
                                        | None \<Rightarrow>
                                            (Inr (), save_state e
                                               (s\<lparr>license := Some r,
                                                  license_string := Some (key r),
                                                  last_refresh := Some now_commit\<rparr>)))))))"

text \<open>
  \<^verbatim>\<open>
  def refresh(self) -> None:
      with self._lock:
          if not self._license_string:
              raise LicenseError("No license has been activated.")
          current_key = self._license_string
          existing_license = self._license
      if not config.LICENSE_ACCESS_TOKEN:
          raise LicenseError("Licensing is not configured. Missing access token.")
      result = Key.activate(token=config.LICENSE_ACCESS_TOKEN, rsa_pub_key=get_rsa_key(),
          product_id=config.LICENSE_PRODUCT_ID, key=current_key,
          machine_code=self._machine_code)
      if result[0] is None:
          error_msg = result[1] if result[1] else "License refresh failed."
          if "blocked" in error_msg.lower():
              if existing_license:
                  with self._lock:
                      existing_license.block = True
                      self._license = existing_license
                      self._last_refresh = _now()
                      self._save_state()
                  return
          raise LicenseError(error_msg)
      with self._lock:
          self._license = result[0]
          self._last_refresh = _now()
          self._save_state()
  \<close>
  \<open>existing_license\<close> is the object \<open>self._license\<close> refers to, so setting its
  \<open>block\<close> attribute updates the cached record.
\<close>

definition refresh :: "env \<Rightarrow> datetime \<Rightarrow> manager \<Rightarrow> (license_error + unit) \<times> manager" where
  "refresh e now s =
     (case license_string s of
        None \<Rightarrow> (Inl (LicenseError ''No license has been activated.''), s)
      | Some current_key \<Rightarrow>
          if current_key = [] then (Inl (LicenseError ''No license has been activated.''), s)
          else (case LICENSE_ACCESS_TOKEN e of
                  None \<Rightarrow>
                    (Inl (LicenseError ''Licensing is not configured. Missing access token.''), s)
                | Some token \<Rightarrow>
                    if token = []
                    then (Inl (LicenseError ''Licensing is not configured. Missing access token.''), s)
                    else (case get_rsa_key e of
                            Inl err \<Rightarrow> (Inl err, s)
                          | Inr rsa \<Rightarrow>
                              (let result = Key_activate e token rsa (LICENSE_PRODUCT_ID e)
                                              current_key (machine_code s)
                               in case fst result of
                                    None \<Rightarrow>
                                      (let msg = error_msg (snd result) ''License refresh failed.''
                                       in if str_in ''blocked'' (lower msg)
                                          then (case license s of
                                                  Some existing_license \<Rightarrow>
                                                    (Inr (), save_state e
                                                       (s\<lparr>license :=
                                                            Some (existing_license\<lparr>block := True\<rparr>),
                                                          last_refresh := Some now\<rparr>))
                                                | None \<Rightarrow> (Inl (LicenseError msg), s))
                                          else (Inl (LicenseError msg), s))
                                  | Some r \<Rightarrow>
                                      (Inr (), save_state e
                                         (s\<lparr>license := Some r, last_refresh := Some now\<rparr>))))))"

text \<open>
  \<^verbatim>\<open>
  def deactivate(self) -> None:
      with self._lock:
          if not self._license_string:
              raise LicenseError("No license has been activated.")
          self._license = None
          self._license_string = None
          self._last_refresh = None
          if self._storage_path.exists():
              try:
                  self._storage_path.unlink()
              except Exception as exc:
                  logger.warning("Failed to delete license file: %s", exc)
  \<close>
\<close>

definition deactivate :: "env \<Rightarrow> manager \<Rightarrow> (license_error + unit) \<times> manager" where
  "deactivate e s =
     (if \<not> str_truthy (license_string s)
      then (Inl (LicenseError ''No license has been activated.''), s)
      else (Inr (),
            s\<lparr>license := None, license_string := None, last_refresh := None,
              storage_file :=
                (case storage_file s of
                   None \<Rightarrow> None
                 | Some f \<Rightarrow> if unlink_ok e then None else Some f)\<rparr>))"

text \<open>
  \<open>status()\<close> returns a dictionary from strings to values. It first evaluates
  \<open>_should_refresh()\<close> and, when that is true, starts a thread that calls
  \<open>refresh()\<close>; the model returns that decision with the dictionary, and the refresh of
  the thread is a \<open>refresh\<close> step of its own. \<open>now_r\<close>, \<open>now_a\<close> and \<open>now_m\<close>
  are the clocks read by \<open>_should_refresh\<close>, \<open>_is_active_unlocked\<close> and
  \<open>_inactive_reason_unlocked\<close>.
  \<^verbatim>\<open>
  status = {
      "product_id": lic.product_id if lic else config.LICENSE_PRODUCT_ID,
      "active": active,
      "license_key": _mask_key(lic.key) if lic else None,
      "expires_at": lic.expires.isoformat() if lic and lic.expires else None,
      "customer_name": lic.customer.Name if lic and lic.customer else None,
      "customer_email": lic.customer.Email if lic and lic.customer else None,
      "max_machines": lic.max_no_of_machines if lic else None,
      "allowed_machines": None,
      "activated_machines": len(lic.activated_machines) if lic and lic.activated_machines else 0,
      "activated_at": lic.created.isoformat() if lic and lic.created else None,
      "last_validated_at": lic.sign_date.isoformat() if lic and lic.sign_date else None,
      "blocked": lic.block if lic else False,
      "message": None if active else self._inactive_reason_unlocked(),
  }
  \<close>
\<close>

datatype py_value = PyNone | PyBool bool | PyInt int | PyStr string

definition opt_str :: "string option \<Rightarrow> py_value" where
  "opt_str v = (case v of None \<Rightarrow> PyNone | Some x \<Rightarrow> PyStr x)"

definition opt_int :: "int option \<Rightarrow> py_value" where
  "opt_int v = (case v of None \<Rightarrow> PyNone | Some x \<Rightarrow> PyInt x)"

definition opt_iso :: "datetime option \<Rightarrow> py_value" where
  "opt_iso v = (case v of None \<Rightarrow> PyNone | Some d \<Rightarrow> PyStr (isoformat d))"

definition status_dict :: "env \<Rightarrow> datetime \<Rightarrow> datetime \<Rightarrow> manager \<Rightarrow> (string \<times> py_value) list" where
  "status_dict e now_a now_m s =
     (let active = is_active_unlocked e now_a s; lic = license s in
      [(''product_id'', PyInt (case lic of None \<Rightarrow> LICENSE_PRODUCT_ID e | Some l \<Rightarrow> product_id l)),
       (''active'', PyBool active),
       (''license_key'', (case lic of None \<Rightarrow> PyNone | Some l \<Rightarrow> opt_str (mask_key (Some (key l))))),
       (''expires_at'', (case lic of None \<Rightarrow> PyNone | Some l \<Rightarrow> opt_iso (expires l))),
       (''customer_name'',
          (case lic of None \<Rightarrow> PyNone
           | Some l \<Rightarrow> (case customer l of None \<Rightarrow> PyNone | Some c \<Rightarrow> opt_str (Name c)))),
       (''customer_email'',
          (case lic of None \<Rightarrow> PyNone
           | Some l \<Rightarrow> (case customer l of None \<Rightarrow> PyNone | Some c \<Rightarrow> opt_str (Email c)))),
       (''max_machines'', (case lic of None \<Rightarrow> PyNone | Some l \<Rightarrow> opt_int (max_no_of_machines l))),
       (''allowed_machines'', PyNone),
       (''activated_machines'',
          PyInt (case lic of None \<Rightarrow> 0
                 | Some l \<Rightarrow> (case activated_machines l of None \<Rightarrow> 0 | Some ms \<Rightarrow> int (length ms)))),
       (''activated_at'', (case lic of None \<Rightarrow> PyNone | Some l \<Rightarrow> opt_iso (created l))),
       (''last_validated_at'', (case lic of None \<Rightarrow> PyNone | Some l \<Rightarrow> opt_iso (sign_date l))),
       (''blocked'', PyBool (case lic of None \<Rightarrow> False | Some l \<Rightarrow> block l)),
       (''message'', (if active then PyNone else PyStr (inactive_reason_unlocked e now_m s)))])"

definition status ::
  "env \<Rightarrow> datetime \<Rightarrow> datetime \<Rightarrow> datetime \<Rightarrow> manager \<Rightarrow> bool \<times> (string \<rightharpoonup> py_value)"
where
  "status e now_r now_a now_m s = (should_refresh now_r s, map_of (status_dict e now_a now_m s))"

section \<open>Sequences of operations\<close>

text \<open>
  The public operations of one manager, each with the environment and the clock values
  it meets. The three read operations return a value and leave every attribute as it
  was; the refresh that \<open>status()\<close> may start in a thread is a \<open>Refresh\<close> of its own in
  the sequence.
\<close>

datatype op =
    Activate env datetime datetime "string option"
  | Refresh env datetime
  | Deactivate env
  | Status env datetime datetime datetime
  | IsActive env datetime
  | InactiveReason env datetime

fun step :: "op \<Rightarrow> manager \<Rightarrow> manager" where
  "step (Activate e now_check now_commit license_key) s =
     snd (activate e now_check now_commit license_key s)"
| "step (Refresh e now) s = snd (refresh e now s)"
| "step (Deactivate e) s = snd (deactivate e s)"
| "step (Status e now_r now_a now_m) s = s"
| "step (IsActive e now) s = s"
| "step (InactiveReason e now) s = s"

fun run :: "op list \<Rightarrow> manager \<Rightarrow> manager" where
  "run [] s = s"
| "run (x # xs) s = run xs (step x s)"

text \<open>
  What \<open>Key.activate\<close> returns when \<open>activate\<close> or \<open>refresh\<close> reaches it for key
  \<open>k\<close>, with the configured token, public key and product id: \<open>None\<close> when the token or
  the public key is missing, so that the call is not made. \<open>authority_response\<close> is the
  record of that answer, if there is one.
\<close>

definition authority_call ::
  "env \<Rightarrow> string \<Rightarrow> manager \<Rightarrow> (license_key option \<times> string option) option"
where
  "authority_call e k s =
     (case LICENSE_ACCESS_TOKEN e of
        None \<Rightarrow> None
      | Some token \<Rightarrow>
          if token = [] then None
          else (case LICENSE_RSA_PUBLIC_KEY e of
                  None \<Rightarrow> None
                | Some rsa \<Rightarrow>
                    if rsa = [] then None
                    else Some (Key_activate e token rsa (LICENSE_PRODUCT_ID e) k (machine_code s))))"

definition authority_response :: "env \<Rightarrow> string \<Rightarrow> manager \<Rightarrow> license_key option" where
  "authority_response e k s = (case authority_call e k s of None \<Rightarrow> None | Some res \<Rightarrow> fst res)"

text \<open>
  The operation, run in state \<open>s\<close>, returns normally and leaves as cached record the
  record the authority returned to it, and that record is not blocked.
\<close>

fun commits_unblocked :: "op \<Rightarrow> manager \<Rightarrow> bool" where
  "commits_unblocked (Activate e now_check now_commit license_key) s =
     (case authority_response e (trimmed license_key) s of
        None \<Rightarrow> False
      | Some r \<Rightarrow>
          \<not> block r \<and> fst (activate e now_check now_commit license_key s) = Inr () \<and>
          license (snd (activate e now_check now_commit license_key s)) = Some r)"
| "commits_unblocked (Refresh e now) s =
     (case license_string s of
        None \<Rightarrow> False
      | Some current_key \<Rightarrow>
          (case authority_response e current_key s of
             None \<Rightarrow> False
           | Some r \<Rightarrow>
               \<not> block r \<and> fst (refresh e now s) = Inr () \<and>
               license (snd (refresh e now s)) = Some r))"
| "commits_unblocked _ s = False"

text \<open>No record is cached whose block flag is false.\<close>

definition no_unblocked :: "manager \<Rightarrow> bool" where
  "no_unblocked s = (case license s of None \<Rightarrow> True | Some l \<Rightarrow> block l)"



text \<open>
  The microseconds from the start of ordinal day 0 to a datetime: the difference of two
  of them is the wall-clock time between the two datetimes.
\<close>

definition dt_micros :: "datetime \<Rightarrow> int" where
  "dt_micros d =
     ((toordinal d * 86400 + (int (second d) + int (minute d) * 60 + int (hour d) * 3600)) * 1000000
      + int (microsecond d))"

text \<open>The characters of a key that are neither hyphens nor spaces.\<close>

definition without_separators :: "string \<Rightarrow> string" where
  "without_separators k = filter (\<lambda>c. c \<noteq> CHR ''-'' \<and> c \<noteq> CHR '' '') k"

section \<open>Example inputs\<close>

definition ex_past :: datetime where
  "ex_past = \<lparr>year = 2024, month = 2, day = 28, hour = 23, minute = 30, second = 0, microsecond = 7\<rparr>"

definition ex_now :: datetime where
  "ex_now = \<lparr>year = 2024, month = 3, day = 1, hour = 0, minute = 30, second = 0, microsecond = 5\<rparr>"

definition ex_early :: datetime where
  "ex_early = \<lparr>year = 999, month = 1, day = 2, hour = 0, minute = 0, second = 0, microsecond = 0\<rparr>"

definition ex_later :: datetime where
  "ex_later = \<lparr>year = 2024, month = 3, day = 1, hour = 1, minute = 30, second = 0, microsecond = 6\<rparr>"

definition ex_license :: license_key where
  "ex_license =
     \<lparr>product_id = 31405, key = ''ABCD-1234-EFGH-5678'', created = Some ex_past, expires = None,
      block = False, customer = Some \<lparr>Name = Some ''Ann'', Email = None\<rparr>,
      activated_machines = Some [''machine-1''], max_no_of_machines = Some 2,
      sign_date = Some ex_past\<rparr>"

text \<open>
  An environment whose authority gives the same answer to every call, whose machine
  check accepts a record when it lists \<open>machine-1\<close>, and whose C library is glibc.
\<close>

definition ex_env :: "license_key option \<times> string option \<Rightarrow> env" where
  "ex_env answer =
     \<lparr>LICENSE_ACCESS_TOKEN = Some ''token'', LICENSE_RSA_PUBLIC_KEY = Some ''rsa'',
      LICENSE_PRODUCT_ID = 31405,
      Key_activate = (\<lambda>token rsa pid k mc. answer),
      IsOnRightMachine =
        (\<lambda>l. case activated_machines l of None \<Rightarrow> False | Some ms \<Rightarrow> ''machine-1'' \<in> set ms),
      GetMachineCode = ''machine-1'',
      load_from_string = (\<lambda>rsa data days. None),
      save_as_string = (\<lambda>l. key l),
      read_ok = True, write_outcome = Written, unlink_ok = True,
      strftime_pads_year = False\<rparr>"

definition ex_manager :: "license_key \<Rightarrow> manager" where
  "ex_manager l =
     \<lparr>machine_code = ''machine-1'', license = Some l, license_string = Some (key l),
      last_refresh = Some ex_now, storage_file = Some (key l)\<rparr>"

section \<open>Properties\<close>


lemma mask_key_Some:
  "k \<noteq> [] \<Longrightarrow> mask_key (Some k) =
     (if length (without_separators k) \<le> 4 then Some (without_separators k)
      else Some (''***'' @ drop (length (without_separators k) - 4) (without_separators k)))"
  by (simp add: mask_key_def replace_with_empty_def without_separators_def last4_def Let_def conj_commute)

text \<open>
  Claim C9, as amended. For every key string that is not empty, \<open>_mask_key\<close> drops the
  hyphens and the spaces, returns the remainder as it is when it has at most four
  characters, and otherwise returns \<open>***\<close> followed by the last four characters of the
  remainder, which are exactly four. For the empty key it returns \<open>None\<close>. Masking
  \<open>ABCD-1234-EFGH-5678\<close> gives \<open>***5678\<close> and masking \<open>AB\<close> gives \<open>AB\<close>.
\<close>

theorem mask_key_rule:
  "(k \<noteq> [] \<longrightarrow>
      mask_key (Some k) =
        (if length (without_separators k) \<le> 4 then Some (without_separators k)
         else Some (''***'' @ drop (length (without_separators k) - 4) (without_separators k)))) \<and>
   (4 < length (without_separators k) \<longrightarrow>
      length (drop (length (without_separators k) - 4) (without_separators k)) = 4) \<and>
   mask_key (Some []) = None \<and>
   mask_key (Some ''ABCD-1234-EFGH-5678'') = Some ''***5678'' \<and>
   mask_key (Some ''AB'') = Some ''AB''"
proof -
  have a: "mask_key (Some ''ABCD-1234-EFGH-5678'') = Some ''***5678''" by code_simp
  have b: "mask_key (Some ''AB'') = Some ''AB''" by code_simp
  have c: "mask_key (Some []) = None" by (simp add: mask_key_def)
  show ?thesis using a b c mask_key_Some[of k] by auto
qed

theorem mask_key_rule_witness:
  "mask_key (Some ''A-B C-D-E'') = Some ''***BCDE''"
proof -
  have h: "''A-B C-D-E'' \<noteq> []" by simp
  have l: "without_separators ''A-B C-D-E'' = ''ABCDE''" by code_simp
  show ?thesis using mask_key_rule[of "''A-B C-D-E''"] h unfolding l by simp
qed

theorem mask_key_empty_counterexample:
  "length (without_separators []) \<le> 4 \<and> mask_key (Some []) \<noteq> Some (without_separators [])"
  by (simp add: mask_key_def without_separators_def)

lemma is_active_unfold:
  "is_active e now s =
     (\<exists>lic. license s = Some lic \<and> \<not> block lic \<and>
            (case expires lic of None \<Rightarrow> True | Some d \<Rightarrow> \<not> dt_less d now) \<and>
            IsOnRightMachine e lic)"
  by (auto simp: is_active_def is_active_unlocked_def is_past_def split: option.splits)

lemma fresh_license: "license (LicenseManager e None) = None"
  by (simp add: LicenseManager_def load_state_def)

lemma status_message:
  "snd (status e now_r now_a now_m s) ''message'' =
     Some (if is_active_unlocked e now_a s then PyNone else PyStr (inactive_reason_unlocked e now_m s))"
  by (simp add: status_def status_dict_def Let_def)

lemma status_last_validated:
  "snd (status e now_r now_a now_m s) ''last_validated_at'' =
     Some (case license s of None \<Rightarrow> PyNone | Some l \<Rightarrow> opt_iso (sign_date l))"
  by (simp add: status_def status_dict_def Let_def)


text \<open>
  Claim C1. \<open>is_active()\<close> is true exactly when a record is cached, its block flag is
  false, its expiry is absent or not earlier than the clock, and the machine check
  accepts it. A manager built with no file at the storage path is not active, and its
  status message says that the product is not activated.
\<close>

theorem is_active_iff:
  "is_active e now s =
     (\<exists>lic. license s = Some lic \<and> \<not> block lic \<and>
            (case expires lic of None \<Rightarrow> True | Some d \<Rightarrow> \<not> dt_less d now) \<and>
            IsOnRightMachine e lic) \<and>
   \<not> is_active e now (LicenseManager e None) \<and>
   snd (status e now_r now_a now_m (LicenseManager e None)) ''message'' =
     Some (PyStr ''BeatChecker is not activated. Please enter a license key.'')"
proof -
  have "\<not> is_active e now (LicenseManager e None)"
    by (simp add: is_active_unfold fresh_license)
  moreover have "snd (status e now_r now_a now_m (LicenseManager e None)) ''message'' =
     Some (PyStr ''BeatChecker is not activated. Please enter a license key.'')"
    by (simp add: status_message is_active_unlocked_def inactive_reason_unlocked_def fresh_license)
  ultimately show ?thesis using is_active_unfold[of e now s] by blast
qed


theorem is_active_iff_witness:
  "is_active (ex_env (None, None)) ex_now (ex_manager ex_license)"
proof -
  have "license (ex_manager ex_license) = Some ex_license \<and> \<not> block ex_license \<and>
        (case expires ex_license of None \<Rightarrow> True | Some d \<Rightarrow> \<not> dt_less d ex_now) \<and>
        IsOnRightMachine (ex_env (None, None)) ex_license"
    by (simp add: ex_manager_def ex_license_def ex_env_def)
  then show ?thesis
    using is_active_iff[of "ex_env (None, None)" ex_now "ex_manager ex_license"] by blast
qed

lemma startswith_iff: "startswith s p = (\<exists>post. s = p @ post)"
  by (induction s p rule: startswith.induct) auto

lemma str_in_iff: "str_in sub s = (\<exists>pre post. s = pre @ sub @ post)"
proof (induction s)
  case Nil
  then show ?case by auto
next
  case (Cons c cs)
  show ?case
  proof
    assume "str_in sub (c # cs)"
    then consider "startswith (c # cs) sub" | "str_in sub cs" by auto
    then show "\<exists>pre post. c # cs = pre @ sub @ post"
    proof cases
      case 1
      then obtain post where "c # cs = sub @ post" by (auto simp: startswith_iff)
      then have "c # cs = [] @ sub @ post" by simp
      then show ?thesis by blast
    next
      case 2
      then obtain pre post where "cs = pre @ sub @ post" using Cons.IH by auto
      then have "c # cs = (c # pre) @ sub @ post" by simp
      then show ?thesis by blast
    qed
  next
    assume "\<exists>pre post. c # cs = pre @ sub @ post"
    then obtain pre post where eq: "c # cs = pre @ sub @ post" by blast
    show "str_in sub (c # cs)"
    proof (cases pre)
      case Nil
      with eq have "startswith (c # cs) sub" by (auto simp: startswith_iff)
      then show ?thesis by simp
    next
      case (Cons a pre')
      with eq have "cs = pre' @ sub @ post" by simp
      then have "str_in sub cs" using Cons.IH by blast
      then show ?thesis by simp
    qed
  qed
qed

lemma decimal_length: "n < 10 ^ w \<Longrightarrow> 0 < w \<Longrightarrow> length (decimal n) \<le> w"
proof (induction n arbitrary: w rule: decimal.induct)
  case (1 n)
  show ?case
  proof (cases "n < 10")
    case True
    then show ?thesis using "1.prems" by (subst decimal.simps) simp
  next
    case False
    then obtain v where w: "w = Suc v" using "1.prems" by (cases w) auto
    have "v > 0" using False "1.prems" w by (cases v) auto
    moreover have "n div 10 < 10 ^ v"
      using "1.prems" w by (simp add: less_mult_imp_div_less mult.commute)
    ultimately have "length (decimal (n div 10)) \<le> v" using "1.IH" False by simp
    then show ?thesis using False w by (subst decimal.simps) simp
  qed
qed

lemma zero_pad_length: "n < 10 ^ w \<Longrightarrow> 0 < w \<Longrightarrow> length (zero_pad w n) = w"
  using decimal_length[of n w] by (simp add: zero_pad_def)

lemma digit_value_table: "k < 10 \<Longrightarrow> digit_value (''0123456789'' ! k) = k"
proof -
  assume "k < 10"
  then have "k = 0 \<or> k = 1 \<or> k = 2 \<or> k = 3 \<or> k = 4 \<or> k = 5 \<or> k = 6 \<or> k = 7 \<or>
             k = 8 \<or> k = 9" by arith
  then show ?thesis by (elim disjE) (simp_all add: digit_value_def)
qed

lemma digit_value_digit: "digit_value (digit n) = n mod 10"
  unfolding digit_def by (rule digit_value_table) simp

lemma decimal_value_snoc: "decimal_value (s @ [c]) = 10 * decimal_value s + digit_value c"
  by (simp add: decimal_value_def)

lemma decimal_value_decimal: "decimal_value (decimal n) = n"
proof (induction n rule: decimal.induct)
  case (1 n)
  show ?case
  proof (cases "n < 10")
    case True
    then show ?thesis
      by (subst decimal.simps) (simp add: decimal_value_def digit_value_digit)
  next
    case False
    then have "decimal_value (decimal (n div 10)) = n div 10" using 1 by simp
    then show ?thesis using False
      by (subst decimal.simps) (simp add: decimal_value_snoc digit_value_digit)
  qed
qed

lemma decimal_value_zeros:
  "decimal_value (replicate k (CHR ''0'') @ s) = decimal_value s"
proof -
  have "foldl (\<lambda>a c. 10 * a + digit_value c) 0 (replicate k (CHR ''0'')) = 0"
    by (induction k) (simp_all add: digit_value_def)
  then show ?thesis by (simp add: decimal_value_def)
qed

lemma decimal_value_zero_pad: "decimal_value (zero_pad w n) = n"
  by (simp add: zero_pad_def decimal_value_zeros decimal_value_decimal)

lemma decimal_length_ge: "10 ^ k \<le> n \<Longrightarrow> k < length (decimal n)"
proof (induction k arbitrary: n)
  case 0
  show ?case by (subst decimal.simps) simp
next
  case (Suc k)
  have p: "10 * (10::nat) ^ k \<le> n" using Suc.prems by simp
  have o: "(1::nat) \<le> 10 ^ k" by simp
  have big: "\<not> n < 10" using p o by linarith
  have "10 ^ k \<le> n div 10" using p by arith
  then have "k < length (decimal (n div 10))" by (rule Suc.IH)
  then show ?case using big by (subst decimal.simps) simp
qed

lemma zero_pad_long: "1000 \<le> n \<Longrightarrow> zero_pad 4 n = decimal n"
  using decimal_length_ge[of 3 n] by (simp add: zero_pad_def)

lemma strftime_is_iso:
  "pads \<or> 1000 \<le> year d \<Longrightarrow> strftime_Ymd pads d = isoformat_date d"
  by (auto simp: strftime_Ymd_def isoformat_date_def zero_pad_long)

lemma decimal_1: "n < 10 \<Longrightarrow> decimal n = [digit n]"
  by (subst decimal.simps) simp

lemma decimal_2: "10 \<le> n \<Longrightarrow> n < 100 \<Longrightarrow> decimal n = [digit (n div 10), digit n]"
  by (subst decimal.simps) (simp add: decimal_1)

lemma decimal_3:
  "100 \<le> n \<Longrightarrow> n < 1000 \<Longrightarrow> decimal n = [digit (n div 100), digit (n div 10), digit n]"
  by (subst decimal.simps) (simp add: decimal_2 div_mult2_eq[symmetric])

lemma decimal_4:
  "1000 \<le> n \<Longrightarrow> n < 10000 \<Longrightarrow>
   decimal n = [digit (n div 1000), digit (n div 100), digit (n div 10), digit n]"
  by (subst decimal.simps) (simp add: decimal_3 div_mult2_eq[symmetric])

lemma digit_0: "digit 0 = CHR ''0''"
  by (simp add: digit_def)

lemma zeros: "replicate (Suc 0) c = [c]" "replicate 2 c = [c, c]" "replicate 3 c = [c, c, c]"
  by (simp_all add: numeral_2_eq_2 numeral_3_eq_3)

lemma zero_pad_2: "n < 100 \<Longrightarrow> zero_pad 2 n = [digit (n div 10), digit n]"
  by (cases "n < 10") (simp_all add: zero_pad_def decimal_1 decimal_2 digit_0 zeros)

lemma zero_pad_4:
  assumes "n < 10000"
  shows "zero_pad 4 n = [digit (n div 1000), digit (n div 100), digit (n div 10), digit n]"
proof -
  consider "n < 10" | "10 \<le> n" "n < 100" | "100 \<le> n" "n < 1000" | "1000 \<le> n"
    by linarith
  then show ?thesis
  proof cases
    case 1 then show ?thesis by (simp add: zero_pad_def decimal_1 digit_0 zeros)
  next
    case 2 then show ?thesis by (simp add: zero_pad_def decimal_2 digit_0 zeros)
  next
    case 3 then show ?thesis by (simp add: zero_pad_def decimal_3 digit_0 zeros)
  next
    case 4 then show ?thesis using assms by (simp add: zero_pad_def decimal_4)
  qed
qed

lemma isoformat_date_digits:
  assumes "year d < 10000" and "month d < 100" and "day d < 100"
  shows "isoformat_date d =
           [digit (year d div 1000), digit (year d div 100), digit (year d div 10), digit (year d),
            CHR ''-'', digit (month d div 10), digit (month d),
            CHR ''-'', digit (day d div 10), digit (day d)]"
  using assms by (simp add: isoformat_date_def zero_pad_4 zero_pad_2)

lemma isoformat_date_values:
  assumes "year d < 10000" and "month d < 100" and "day d < 100"
  shows "decimal_value (take 4 (isoformat_date d)) = year d"
    and "decimal_value (take 2 (drop 5 (isoformat_date d))) = month d"
    and "decimal_value (drop 8 (isoformat_date d)) = day d"
proof -
  have y: "length (zero_pad 4 (year d)) = 4" using assms(1) by (simp add: zero_pad_length)
  have m: "length (zero_pad 2 (month d)) = 2" using assms(2) by (simp add: zero_pad_length)
  show "decimal_value (take 4 (isoformat_date d)) = year d"
    by (simp add: isoformat_date_def y decimal_value_zero_pad)
  show "decimal_value (take 2 (drop 5 (isoformat_date d))) = month d"
    by (simp add: isoformat_date_def y m decimal_value_zero_pad)
  show "decimal_value (drop 8 (isoformat_date d)) = day d"
    by (simp add: isoformat_date_def y m decimal_value_zero_pad)
qed

lemma inactive_reason_none:
  "license s = None \<Longrightarrow>
   inactive_reason e now s = ''BeatChecker is not activated. Please enter a license key.''"
  by (simp add: inactive_reason_def inactive_reason_unlocked_def)

lemma inactive_reason_blocked:
  "license s = Some l \<Longrightarrow> block l \<Longrightarrow>
   inactive_reason e now s = ''Your license has been blocked. Please contact support.''"
  by (simp add: inactive_reason_def inactive_reason_unlocked_def)

lemma inactive_reason_expired:
  "license s = Some l \<Longrightarrow> \<not> block l \<Longrightarrow> expires l = Some d \<Longrightarrow> dt_less d now \<Longrightarrow>
   inactive_reason e now s =
     ''Your license expired on '' @ strftime_Ymd (strftime_pads_year e) d @ ''.''"
  by (simp add: inactive_reason_def inactive_reason_unlocked_def)

lemma inactive_reason_machine:
  "license s = Some l \<Longrightarrow> \<not> block l \<Longrightarrow> \<not> is_past (expires l) now \<Longrightarrow>
   \<not> IsOnRightMachine e l \<Longrightarrow>
   inactive_reason e now s = ''This license is not activated on this machine.''"
  by (auto simp: inactive_reason_def inactive_reason_unlocked_def is_past_def split: option.splits)

text \<open>
  Claim C4, as amended. \<open>inactive_reason()\<close> tests the conditions in the order no
  record, blocked, expired, wrong machine, and returns the message of the first that
  holds. So a record that is blocked gets the blocked message whatever its expiry is. A
  record that is not blocked and has its expiry in the past gets a message that contains
  the expiry date as \<open>strftime("%Y-%m-%d")\<close> writes it. That is the form YYYY-MM-DD,
  four digits of the year, two of the month and two of the day of the expiry, when the
  year is 1000 or later or the platform pads \<open>%Y\<close>.
\<close>

theorem inactive_reason_order:
  "(license s = None \<longrightarrow>
      inactive_reason e now s = ''BeatChecker is not activated. Please enter a license key.'') \<and>
   (\<forall>l. license s = Some l \<and> block l \<longrightarrow>
      inactive_reason e now s = ''Your license has been blocked. Please contact support.'') \<and>
   (\<forall>l d. license s = Some l \<and> \<not> block l \<and> expires l = Some d \<and> dt_less d now \<longrightarrow>
      inactive_reason e now s =
        ''Your license expired on '' @ strftime_Ymd (strftime_pads_year e) d @ ''.'' \<and>
      (strftime_pads_year e \<or> 1000 \<le> year d \<longrightarrow>
         inactive_reason e now s = ''Your license expired on '' @ isoformat_date d @ ''.'' \<and>
         str_in (isoformat_date d) (inactive_reason e now s))) \<and>
   (\<forall>d. year d < 10000 \<and> month d < 100 \<and> day d < 100 \<longrightarrow>
      isoformat_date d =
        [digit (year d div 1000), digit (year d div 100), digit (year d div 10), digit (year d),
         CHR ''-'', digit (month d div 10), digit (month d),
         CHR ''-'', digit (day d div 10), digit (day d)] \<and>
      decimal_value (take 4 (isoformat_date d)) = year d \<and>
      decimal_value (take 2 (drop 5 (isoformat_date d))) = month d \<and>
      decimal_value (drop 8 (isoformat_date d)) = day d) \<and>
   (\<forall>l. license s = Some l \<and> \<not> block l \<and> \<not> is_past (expires l) now \<and>
        \<not> IsOnRightMachine e l \<longrightarrow>
      inactive_reason e now s = ''This license is not activated on this machine.'')"
proof (intro conjI allI impI)
  assume "license s = None"
  then show "inactive_reason e now s = ''BeatChecker is not activated. Please enter a license key.''"
    by (rule inactive_reason_none)
next
  fix l assume "license s = Some l \<and> block l"
  then show "inactive_reason e now s = ''Your license has been blocked. Please contact support.''"
    by (simp add: inactive_reason_blocked)
next
  fix l d assume h: "license s = Some l \<and> \<not> block l \<and> expires l = Some d \<and> dt_less d now"
  then show r: "inactive_reason e now s =
        ''Your license expired on '' @ strftime_Ymd (strftime_pads_year e) d @ ''.''"
    by (simp add: inactive_reason_expired)
  assume "strftime_pads_year e \<or> 1000 \<le> year d"
  then have i: "strftime_Ymd (strftime_pads_year e) d = isoformat_date d"
    by (rule strftime_is_iso)
  show r': "inactive_reason e now s = ''Your license expired on '' @ isoformat_date d @ ''.''"
    by (simp only: r i)
  show "str_in (isoformat_date d) (inactive_reason e now s)"
    unfolding r' str_in_iff by blast
next
  fix d :: datetime assume h: "year d < 10000 \<and> month d < 100 \<and> day d < 100"
  show "isoformat_date d =
        [digit (year d div 1000), digit (year d div 100), digit (year d div 10), digit (year d),
         CHR ''-'', digit (month d div 10), digit (month d),
         CHR ''-'', digit (day d div 10), digit (day d)]"
    using h by (simp only: isoformat_date_digits)
  show "decimal_value (take 4 (isoformat_date d)) = year d"
    using h by (simp only: isoformat_date_values)
  show "decimal_value (take 2 (drop 5 (isoformat_date d))) = month d"
    using h by (simp only: isoformat_date_values)
  show "decimal_value (drop 8 (isoformat_date d)) = day d"
    using h by (simp only: isoformat_date_values)
next
  fix l assume "license s = Some l \<and> \<not> block l \<and> \<not> is_past (expires l) now \<and>
        \<not> IsOnRightMachine e l"
  then show "inactive_reason e now s = ''This license is not activated on this machine.''"
    by (simp add: inactive_reason_machine)
qed

theorem inactive_reason_order_witness:
  "inactive_reason (ex_env (None, None)) ex_now (ex_manager (ex_license\<lparr>expires := Some ex_past\<rparr>)) =
     ''Your license expired on 2024-02-28.''"
proof -
  have h: "license (ex_manager (ex_license\<lparr>expires := Some ex_past\<rparr>)) =
             Some (ex_license\<lparr>expires := Some ex_past\<rparr>) \<and>
           \<not> block (ex_license\<lparr>expires := Some ex_past\<rparr>) \<and>
           expires (ex_license\<lparr>expires := Some ex_past\<rparr>) = Some ex_past \<and>
           dt_less ex_past ex_now"
    by (simp add: ex_manager_def ex_license_def dt_less_def dt_fields_def ex_past_def ex_now_def)
  have y: "1000 \<le> year ex_past" by (simp add: ex_past_def)
  have f: "isoformat_date ex_past = ''2024-02-28''" by code_simp
  have "inactive_reason (ex_env (None, None)) ex_now
          (ex_manager (ex_license\<lparr>expires := Some ex_past\<rparr>)) =
        ''Your license expired on '' @ isoformat_date ex_past @ ''.''"
    using inactive_reason_order[of "ex_manager (ex_license\<lparr>expires := Some ex_past\<rparr>)"
        "ex_env (None, None)" ex_now] h y by blast
  then show ?thesis unfolding f by simp
qed

theorem inactive_reason_year_counterexample:
  "\<not> block (ex_license\<lparr>expires := Some ex_early\<rparr>) \<and> dt_less ex_early ex_now \<and>
   isoformat_date ex_early = ''0999-01-02'' \<and>
   inactive_reason (ex_env (None, None)) ex_now
     (ex_manager (ex_license\<lparr>expires := Some ex_early\<rparr>)) =
     ''Your license expired on 999-01-02.'' \<and>
   \<not> str_in (isoformat_date ex_early)
       (inactive_reason (ex_env (None, None)) ex_now
          (ex_manager (ex_license\<lparr>expires := Some ex_early\<rparr>)))"
  by code_simp

lemma total_seconds_dt_sub:
  "total_seconds (dt_sub a b) = real_of_int (dt_micros a - dt_micros b) / 1000000"
proof -
  define dd where "dd = toordinal a - toordinal b"
  define ss where "ss = (int (second a) + int (minute a) * 60 + int (hour a) * 3600) -
        (int (second b) + int (minute b) * 60 + int (hour b) * 3600)"
  define us where "us = int (microsecond a) - int (microsecond b)"
  define s1 where "s1 = ss + us div 1000000"
  define q where "q = us div 1000000"
  define r where "r = us mod 1000000"
  have us: "us = q * 1000000 + r" by (simp add: q_def r_def)
  have s1: "s1 div 86400 * 86400 + s1 mod 86400 = s1" by simp
  have "((dd + s1 div 86400) * 86400 + s1 mod 86400) * 1000000 + r =
        (dd * 86400 + (s1 div 86400 * 86400 + s1 mod 86400)) * 1000000 + r"
    by (simp only: distrib_right add.assoc)
  also have "\<dots> = (dd * 86400 + (ss + q)) * 1000000 + r"
    by (subst s1) (simp only: s1_def q_def)
  also have "\<dots> = (dd * 86400 + ss) * 1000000 + us"
    by (simp add: us algebra_simps)
  also have "\<dots> = dt_micros a - dt_micros b"
    by (simp add: dd_def ss_def us_def dt_micros_def algebra_simps)
  finally have "((dd + s1 div 86400) * 86400 + s1 mod 86400) * 1000000 + r =
        dt_micros a - dt_micros b" .
  moreover have "dt_sub a b = mk_timedelta dd ss us"
    by (simp only: dt_sub_def dd_def ss_def us_def)
  moreover have "days (mk_timedelta dd ss us) = dd + s1 div 86400"
    and "seconds (mk_timedelta dd ss us) = s1 mod 86400"
    and "microseconds (mk_timedelta dd ss us) = r"
    by (simp_all add: mk_timedelta_def Let_def s1_def r_def)
  ultimately have "(days (dt_sub a b) * 86400 + seconds (dt_sub a b)) * 1000000 +
             microseconds (dt_sub a b) = dt_micros a - dt_micros b"
    by (simp only:)
  then show ?thesis
    by (simp only: total_seconds_def)
qed

lemma should_refresh_elapsed:
  "total_seconds (dt_sub a b) > 3600 \<longleftrightarrow> dt_micros a - dt_micros b > 3600 * 1000000"
proof -
  have "real_of_int (dt_micros a - dt_micros b) / 1000000 > 3600 \<longleftrightarrow>
        real_of_int (dt_micros a - dt_micros b) > 3600 * 1000000"
    by (simp add: field_simps)
  also have "\<dots> \<longleftrightarrow> dt_micros a - dt_micros b > 3600 * 1000000"
    by linarith
  finally show ?thesis by (simp only: total_seconds_dt_sub)
qed

lemma status_should_refresh: "fst (status e now_r now_a now_m s) = should_refresh now_r s"
  by (simp add: status_def)

text \<open>
  Claim C5. The decision that \<open>status()\<close> takes with \<open>_should_refresh()\<close>, read in the
  order of its tests: false when no key string is cached; false when the cached record is
  blocked; otherwise true when no refresh has been stamped; otherwise true exactly when
  more than 3600 seconds, that is 3600000000 microseconds, lie between the stamp and the
  clock.
\<close>

theorem should_refresh_policy:
  "(\<not> str_truthy (license_string s) \<longrightarrow> \<not> fst (status e now_r now_a now_m s)) \<and>
   ((\<exists>lic. license s = Some lic \<and> block lic) \<longrightarrow> \<not> fst (status e now_r now_a now_m s)) \<and>
   (str_truthy (license_string s) \<and> \<not> (\<exists>lic. license s = Some lic \<and> block lic) \<and>
      last_refresh s = None \<longrightarrow> fst (status e now_r now_a now_m s)) \<and>
   (\<forall>t. str_truthy (license_string s) \<and> \<not> (\<exists>lic. license s = Some lic \<and> block lic) \<and>
      last_refresh s = Some t \<longrightarrow>
      fst (status e now_r now_a now_m s) = (dt_micros now_r - dt_micros t > 3600 * 1000000))"
  unfolding status_should_refresh
  by (auto simp: should_refresh_def should_refresh_elapsed split: option.splits)

theorem should_refresh_policy_witness:
  "fst (status (ex_env (None, None)) ex_later ex_later ex_later (ex_manager ex_license)) \<and>
   \<not> fst (status (ex_env (None, None)) ex_now ex_now ex_now (ex_manager ex_license))"
proof -
  have h: "str_truthy (license_string (ex_manager ex_license)) \<and>
           \<not> (\<exists>lic. license (ex_manager ex_license) = Some lic \<and> block lic) \<and>
           last_refresh (ex_manager ex_license) = Some ex_now"
    by (simp add: ex_manager_def ex_license_def str_truthy_def)
  have a: "dt_micros ex_later - dt_micros ex_now > 3600 * 1000000" by code_simp
  have b: "\<not> dt_micros ex_now - dt_micros ex_now > 3600 * 1000000" by simp
  show ?thesis
    using should_refresh_policy[of "ex_manager ex_license" "ex_env (None, None)" ex_later ex_later ex_later]
      should_refresh_policy[of "ex_manager ex_license" "ex_env (None, None)" ex_now ex_now ex_now]
      h a b by blast
qed





lemma refresh_call:
  assumes "license_string s = Some k" and "k \<noteq> []" and "authority_call e k s = Some res"
  shows "refresh e now s =
     (case fst res of
        None \<Rightarrow>
          (if str_in ''blocked'' (lower (error_msg (snd res) ''License refresh failed.''))
           then (case license s of
                   Some l \<Rightarrow>
                     (Inr (), save_state e (s\<lparr>license := Some (l\<lparr>block := True\<rparr>),
                                              last_refresh := Some now\<rparr>))
                 | None \<Rightarrow>
                     (Inl (LicenseError (error_msg (snd res) ''License refresh failed.'')), s))
           else (Inl (LicenseError (error_msg (snd res) ''License refresh failed.'')), s))
      | Some r \<Rightarrow> (Inr (), save_state e (s\<lparr>license := Some r, last_refresh := Some now\<rparr>)))"
  using assms
  by (auto simp: refresh_def authority_call_def get_rsa_key_def Let_def
           split: option.splits if_splits)

lemma refresh_no_call:
  assumes "license_string s = Some k" and "authority_call e k s = None"
  shows "\<exists>msg. refresh e now s = (Inl (LicenseError msg), s)"
  using assms
  by (auto simp: refresh_def authority_call_def get_rsa_key_def Let_def
           split: option.splits if_splits)

lemma save_state_fields:
  "license (save_state e s) = license s"
  "license_string (save_state e s) = license_string s"
  "last_refresh (save_state e s) = last_refresh s"
  "machine_code (save_state e s) = machine_code s"
  by (simp_all add: save_state_def split: option.splits write_outcome.splits)

lemma save_state_file:
  "license s = Some l \<Longrightarrow>
   storage_file (save_state e s) =
     (case write_outcome e of
        OpenRaises \<Rightarrow> storage_file s
      | SaveAsStringRaises \<Rightarrow> Some []
      | WriteRaises n \<Rightarrow> Some (take n (save_as_string e l))
      | Written \<Rightarrow> Some (save_as_string e l))"
  by (simp add: save_state_def split: write_outcome.splits)

lemma error_msg_Some: "t \<noteq> [] \<Longrightarrow> error_msg (Some t) dflt = t"
  by (simp add: error_msg_def)

lemma blocked_any_case:
  "str_in sub (lower t) = (\<exists>pre w post. t = pre @ w @ post \<and> lower w = sub)"
  unfolding str_in_iff lower_def
  by (metis map_append map_eq_append_conv)

text \<open>
  Claim C2. Let \<open>refresh()\<close> reach the authority and get no record back. If the error
  message contains \<open>blocked\<close> in any letter case and a record is cached, \<open>refresh()\<close>
  returns without raising, the cached record is the old one with its block flag set, the
  refresh stamp is the clock, the key string and the machine code are unchanged, and the
  patched record is saved: the file holds its serialisation when the write succeeds,
  keeps its old content when \<open>open\<close> raises, and is left empty or with the characters
  already written when a later step raises. If the
  message does not contain \<open>blocked\<close>, \<open>refresh()\<close> raises \<open>LicenseError\<close> with the
  message and changes nothing. The message is the authority's when it gave one.
\<close>

theorem refresh_failure:
  assumes "license_string s = Some k" and "k \<noteq> []"
    and "authority_call e k s = Some (None, m)"
  shows "(\<forall>lic. license s = Some lic \<and>
            str_in ''blocked'' (lower (error_msg m ''License refresh failed.'')) \<longrightarrow>
            fst (refresh e now s) = Inr () \<and>
            license (snd (refresh e now s)) = Some (lic\<lparr>block := True\<rparr>) \<and>
            last_refresh (snd (refresh e now s)) = Some now \<and>
            license_string (snd (refresh e now s)) = Some k \<and>
            machine_code (snd (refresh e now s)) = machine_code s \<and>
            storage_file (snd (refresh e now s)) =
              (case write_outcome e of
                 OpenRaises \<Rightarrow> storage_file s
               | SaveAsStringRaises \<Rightarrow> Some []
               | WriteRaises n \<Rightarrow> Some (take n (save_as_string e (lic\<lparr>block := True\<rparr>)))
               | Written \<Rightarrow> Some (save_as_string e (lic\<lparr>block := True\<rparr>)))) \<and>
         (\<not> str_in ''blocked'' (lower (error_msg m ''License refresh failed.'')) \<longrightarrow>
            refresh e now s = (Inl (LicenseError (error_msg m ''License refresh failed.'')), s)) \<and>
         (\<forall>t. m = Some t \<and> t \<noteq> [] \<longrightarrow> error_msg m ''License refresh failed.'' = t) \<and>
         (\<forall>t. str_in ''blocked'' (lower t) =
              (\<exists>pre w post. t = pre @ w @ post \<and> lower w = ''blocked''))"
proof (intro conjI allI impI)
  fix lic
  assume h: "license s = Some lic \<and>
             str_in ''blocked'' (lower (error_msg m ''License refresh failed.''))"
  have r: "refresh e now s =
             (Inr (), save_state e (s\<lparr>license := Some (lic\<lparr>block := True\<rparr>),
                                      last_refresh := Some now\<rparr>))"
    using refresh_call[OF assms, of now] h by simp
  show "fst (refresh e now s) = Inr ()" by (simp add: r)
  show "license (snd (refresh e now s)) = Some (lic\<lparr>block := True\<rparr>)"
    by (simp add: r save_state_fields)
  show "last_refresh (snd (refresh e now s)) = Some now" by (simp add: r save_state_fields)
  show "license_string (snd (refresh e now s)) = Some k"
    by (simp add: r save_state_fields assms(1))
  show "machine_code (snd (refresh e now s)) = machine_code s" by (simp add: r save_state_fields)
  show "storage_file (snd (refresh e now s)) =
          (case write_outcome e of
             OpenRaises \<Rightarrow> storage_file s
           | SaveAsStringRaises \<Rightarrow> Some []
           | WriteRaises n \<Rightarrow> Some (take n (save_as_string e (lic\<lparr>block := True\<rparr>)))
           | Written \<Rightarrow> Some (save_as_string e (lic\<lparr>block := True\<rparr>)))"
    by (simp add: r save_state_file split: write_outcome.splits)
next
  assume "\<not> str_in ''blocked'' (lower (error_msg m ''License refresh failed.''))"
  then show "refresh e now s = (Inl (LicenseError (error_msg m ''License refresh failed.'')), s)"
    using refresh_call[OF assms, of now] by simp
next
  fix t assume "m = Some t \<and> t \<noteq> []"
  then show "error_msg m ''License refresh failed.'' = t" by (simp add: error_msg_Some)
next
  fix t show "str_in ''blocked'' (lower t) =
              (\<exists>pre w post. t = pre @ w @ post \<and> lower w = ''blocked'')"
    by (rule blocked_any_case)
qed

lemma ex_authority_call:
  "authority_call (ex_env answer) k s = Some answer"
  by (simp add: authority_call_def ex_env_def)

theorem refresh_failure_witness:
  "fst (refresh (ex_env (None, Some ''This key has been Blocked'')) ex_later (ex_manager ex_license)) =
     Inr () \<and>
   license (snd (refresh (ex_env (None, Some ''This key has been Blocked'')) ex_later
                   (ex_manager ex_license))) = Some (ex_license\<lparr>block := True\<rparr>) \<and>
   refresh (ex_env (None, Some ''Could not contact the server.'')) ex_later (ex_manager ex_license) =
     (Inl (LicenseError ''Could not contact the server.''), ex_manager ex_license)"
proof -
  have k: "license_string (ex_manager ex_license) = Some ''ABCD-1234-EFGH-5678''"
    by (simp add: ex_manager_def ex_license_def)
  have n: "''ABCD-1234-EFGH-5678'' \<noteq> []" by simp
  have l: "license (ex_manager ex_license) = Some ex_license" by (simp add: ex_manager_def)
  have b: "str_in ''blocked'' (lower (error_msg (Some ''This key has been Blocked'')
             ''License refresh failed.''))" by code_simp
  have c: "\<not> str_in ''blocked'' (lower (error_msg (Some ''Could not contact the server.'')
             ''License refresh failed.''))" by code_simp
  have d: "error_msg (Some ''Could not contact the server.'') ''License refresh failed.'' =
           ''Could not contact the server.''" by (simp add: error_msg_def)
  have "fst (refresh (ex_env (None, Some ''This key has been Blocked'')) ex_later
               (ex_manager ex_license)) = Inr () \<and>
        license (snd (refresh (ex_env (None, Some ''This key has been Blocked'')) ex_later
                   (ex_manager ex_license))) = Some (ex_license\<lparr>block := True\<rparr>)"
    using refresh_failure[OF k n ex_authority_call, of "Some ''This key has been Blocked''" ex_later]
      l b by blast
  moreover have "refresh (ex_env (None, Some ''Could not contact the server.'')) ex_later
                   (ex_manager ex_license) =
                 (Inl (LicenseError ''Could not contact the server.''), ex_manager ex_license)"
    using refresh_failure[OF k n ex_authority_call, of "Some ''Could not contact the server.''" ex_later]
      c d by simp
  ultimately show ?thesis by blast
qed


lemma activate_empty:
  "trimmed license_key = [] \<Longrightarrow>
   activate e now_check now_commit license_key s =
     (Inl (LicenseError ''A license key is required.''), s)"
  by (simp add: activate_def)

lemma activate_no_token:
  "trimmed license_key \<noteq> [] \<Longrightarrow> \<not> str_truthy (LICENSE_ACCESS_TOKEN e) \<Longrightarrow>
   activate e now_check now_commit license_key s =
     (Inl (LicenseError ''Licensing is not configured. Missing access token.''), s)"
  by (auto simp: activate_def str_truthy_def split: option.splits)

lemma activate_call:
  assumes "trimmed license_key \<noteq> []"
    and "authority_call e (trimmed license_key) s = Some res"
  shows "activate e now_check now_commit license_key s =
     (case fst res of
        None \<Rightarrow> (Inl (LicenseError (error_msg (snd res) ''License activation failed.'')), s)
      | Some r \<Rightarrow>
          if \<not> IsOnRightMachine e r
          then (Inl (LicenseError ''This license cannot be activated on this machine.''), s)
          else (case expires r of
                  Some d \<Rightarrow>
                    if dt_less d now_check
                    then (Inl (LicenseError (''This license expired on '' @ strftime_Ymd (strftime_pads_year e) d @
                            '' and cannot be activated.'')), s)
                    else (Inr (), save_state e
                            (s\<lparr>license := Some r, license_string := Some (key r),
                               last_refresh := Some now_commit\<rparr>))
                | None \<Rightarrow>
                    (Inr (), save_state e
                       (s\<lparr>license := Some r, license_string := Some (key r),
                          last_refresh := Some now_commit\<rparr>))))"
  using assms
  by (auto simp: activate_def authority_call_def get_rsa_key_def Let_def
           split: option.splits if_splits)

lemma activate_no_call:
  assumes "authority_call e (trimmed license_key) s = None"
  shows "\<exists>msg. activate e now_check now_commit license_key s = (Inl (LicenseError msg), s)"
  using assms
  by (auto simp: activate_def authority_call_def get_rsa_key_def Let_def
           split: option.splits if_splits)

lemma activate_commit:
  assumes "trimmed license_key \<noteq> []"
    and "authority_call e (trimmed license_key) s = Some (Some r, m)"
    and "IsOnRightMachine e r" and "\<not> is_past (expires r) now_check"
  shows "activate e now_check now_commit license_key s =
     (Inr (), save_state e (s\<lparr>license := Some r, license_string := Some (key r),
                              last_refresh := Some now_commit\<rparr>))"
  using activate_call[OF assms(1,2), of now_check now_commit] assms(3,4)
  by (auto simp: is_past_def split: option.splits)

lemma activate_returns:
  assumes "fst (activate e now_check now_commit license_key s) = Inr ()"
  shows "\<exists>r m. trimmed license_key \<noteq> [] \<and> str_truthy (LICENSE_ACCESS_TOKEN e) \<and>
           authority_call e (trimmed license_key) s = Some (Some r, m) \<and>
           IsOnRightMachine e r \<and> \<not> is_past (expires r) now_check \<and>
           snd (activate e now_check now_commit license_key s) =
             save_state e (s\<lparr>license := Some r, license_string := Some (key r),
                             last_refresh := Some now_commit\<rparr>)"
proof -
  have k: "trimmed license_key \<noteq> []" using assms by (auto simp: activate_empty)
  have t: "str_truthy (LICENSE_ACCESS_TOKEN e)"
  proof (rule ccontr)
    assume "\<not> str_truthy (LICENSE_ACCESS_TOKEN e)"
    then have "fst (activate e now_check now_commit license_key s) =
               Inl (LicenseError ''Licensing is not configured. Missing access token.'')"
      using k by (simp add: activate_no_token)
    with assms show False by simp
  qed
  obtain res where c: "authority_call e (trimmed license_key) s = Some res"
    using assms activate_no_call[of e license_key s now_check now_commit]
    by (cases "authority_call e (trimmed license_key) s") auto
  obtain r where r: "fst res = Some r"
    using assms activate_call[OF k c, of now_check now_commit] by (cases "fst res") auto
  have "IsOnRightMachine e r \<and> \<not> is_past (expires r) now_check \<and>
        snd (activate e now_check now_commit license_key s) =
          save_state e (s\<lparr>license := Some r, license_string := Some (key r),
                          last_refresh := Some now_commit\<rparr>)"
    using assms activate_call[OF k c, of now_check now_commit] r
    by (auto simp: is_past_def split: option.splits if_splits)
  moreover have "res = (Some r, snd res)" using r by (cases res) simp
  ultimately show ?thesis using k t c by metis
qed

lemma activate_raises:
  assumes "fst (activate e now_check now_commit license_key s) = Inl err"
  shows "snd (activate e now_check now_commit license_key s) = s"
  using assms
  by (auto simp: activate_def Let_def split: option.splits if_splits sum.splits)





lemma refresh_commit:
  assumes "license_string s = Some k" and "k \<noteq> []"
    and "authority_call e k s = Some (Some r, m)"
  shows "refresh e now s =
           (Inr (), save_state e (s\<lparr>license := Some r, last_refresh := Some now\<rparr>))"
  using refresh_call[OF assms, of now] by simp

lemma is_active_last_refresh:
  "is_active_unlocked e now (s\<lparr>last_refresh := x\<rparr>) = is_active_unlocked e now s"
  by (simp add: is_active_unlocked_def)

lemma inactive_reason_last_refresh:
  "inactive_reason_unlocked e now (s\<lparr>last_refresh := x\<rparr>) = inactive_reason_unlocked e now s"
  by (simp add: inactive_reason_unlocked_def)

lemma status_dict_last_refresh:
  "status_dict e now_a now_m (s\<lparr>last_refresh := x\<rparr>) = status_dict e now_a now_m s"
  unfolding status_dict_def is_active_last_refresh inactive_reason_last_refresh
  by simp

text \<open>
  Claim C6, as amended. After \<open>activate()\<close> or \<open>refresh()\<close> has committed the record the
  authority returned, \<open>last_validated_at\<close> in the status is the ISO form of the
  \<open>sign_date\<close> attribute of that record, or null when the record has none. The clock read
  at the commit is stored in \<open>_last_refresh\<close>, and the status dictionary does not depend
  on \<open>_last_refresh\<close>.
\<close>

theorem last_validated_at_is_sign_date:
  "(\<forall>r m. trimmed license_key \<noteq> [] \<and>
        authority_call e (trimmed license_key) s = Some (Some r, m) \<and>
        IsOnRightMachine e r \<and> \<not> is_past (expires r) now_check \<longrightarrow>
      fst (activate e now_check now_commit license_key s) = Inr () \<and>
      last_refresh (snd (activate e now_check now_commit license_key s)) = Some now_commit \<and>
      snd (status e' now_r now_a now_m (snd (activate e now_check now_commit license_key s)))
        ''last_validated_at'' = Some (opt_iso (sign_date r))) \<and>
   (\<forall>k r m. license_string s = Some k \<and> k \<noteq> [] \<and>
        authority_call e k s = Some (Some r, m) \<longrightarrow>
      fst (refresh e now s) = Inr () \<and>
      last_refresh (snd (refresh e now s)) = Some now \<and>
      snd (status e' now_r now_a now_m (snd (refresh e now s))) ''last_validated_at'' =
        Some (opt_iso (sign_date r))) \<and>
   (\<forall>x. snd (status e' now_r now_a now_m (s\<lparr>last_refresh := x\<rparr>)) =
        snd (status e' now_r now_a now_m s))"
proof (intro conjI allI impI)
  fix r m
  assume "trimmed license_key \<noteq> [] \<and>
        authority_call e (trimmed license_key) s = Some (Some r, m) \<and>
        IsOnRightMachine e r \<and> \<not> is_past (expires r) now_check"
  then have a: "activate e now_check now_commit license_key s =
     (Inr (), save_state e (s\<lparr>license := Some r, license_string := Some (key r),
                              last_refresh := Some now_commit\<rparr>))"
    by (simp add: activate_commit)
  show "fst (activate e now_check now_commit license_key s) = Inr ()" by (simp add: a)
  show "last_refresh (snd (activate e now_check now_commit license_key s)) = Some now_commit"
    by (simp add: a save_state_fields)
  show "snd (status e' now_r now_a now_m (snd (activate e now_check now_commit license_key s)))
        ''last_validated_at'' = Some (opt_iso (sign_date r))"
    by (simp add: a status_last_validated save_state_fields)
next
  fix k r m
  assume "license_string s = Some k \<and> k \<noteq> [] \<and> authority_call e k s = Some (Some r, m)"
  then have a: "refresh e now s =
           (Inr (), save_state e (s\<lparr>license := Some r, last_refresh := Some now\<rparr>))"
    by (simp add: refresh_commit)
  show "fst (refresh e now s) = Inr ()" by (simp add: a)
  show "last_refresh (snd (refresh e now s)) = Some now" by (simp add: a save_state_fields)
  show "snd (status e' now_r now_a now_m (snd (refresh e now s))) ''last_validated_at'' =
        Some (opt_iso (sign_date r))"
    by (simp add: a status_last_validated save_state_fields)
next
  fix x
  show "snd (status e' now_r now_a now_m (s\<lparr>last_refresh := x\<rparr>)) =
        snd (status e' now_r now_a now_m s)"
    by (simp add: status_def status_dict_last_refresh)
qed

theorem last_validated_at_is_sign_date_witness:
  "snd (status (ex_env (None, None)) ex_later ex_later ex_later
          (snd (activate (ex_env (Some ex_license, None)) ex_now ex_later
                  (Some ''ABCD-1234-EFGH-5678'') (LicenseManager (ex_env (None, None)) None))))
     ''last_validated_at'' = Some (PyStr (isoformat ex_past))"
proof -
  have k: "trimmed (Some ''ABCD-1234-EFGH-5678'') \<noteq> []" by code_simp
  have r: "IsOnRightMachine (ex_env (Some ex_license, None)) ex_license"
    by (simp add: ex_env_def ex_license_def)
  have x: "\<not> is_past (expires ex_license) ex_now" by (simp add: is_past_def ex_license_def)
  have "snd (status (ex_env (None, None)) ex_later ex_later ex_later
          (snd (activate (ex_env (Some ex_license, None)) ex_now ex_later
                  (Some ''ABCD-1234-EFGH-5678'') (LicenseManager (ex_env (None, None)) None))))
     ''last_validated_at'' = Some (opt_iso (sign_date ex_license))"
    using last_validated_at_is_sign_date[of "Some ''ABCD-1234-EFGH-5678''"
        "ex_env (Some ex_license, None)" "LicenseManager (ex_env (None, None)) None" ex_now ex_later
        "ex_env (None, None)" ex_later ex_later ex_later] k r x ex_authority_call
    by blast
  then show ?thesis by (simp add: opt_iso_def ex_license_def)
qed

theorem last_validated_at_counterexample:
  "fst (activate (ex_env (Some ex_license, None)) ex_now ex_later (Some ''ABCD-1234-EFGH-5678'')
          (LicenseManager (ex_env (None, None)) None)) = Inr () \<and>
   last_refresh (snd (activate (ex_env (Some ex_license, None)) ex_now ex_later
          (Some ''ABCD-1234-EFGH-5678'') (LicenseManager (ex_env (None, None)) None))) =
     Some ex_later \<and>
   snd (status (ex_env (None, None)) ex_later ex_later ex_later
          (snd (activate (ex_env (Some ex_license, None)) ex_now ex_later
                  (Some ''ABCD-1234-EFGH-5678'') (LicenseManager (ex_env (None, None)) None))))
     ''last_validated_at'' \<noteq> Some (PyStr (isoformat ex_later))"
  by code_simp



lemma refresh_raises:
  assumes "fst (refresh e now s) = Inl err"
  shows "snd (refresh e now s) = s"
  using assms
  by (auto simp: refresh_def Let_def split: option.splits if_splits sum.splits)

lemma authority_response_call:
  "authority_call e k s = Some (Some r, m) \<Longrightarrow> authority_response e k s = Some r"
  by (simp add: authority_response_def)

lemma activate_step:
  assumes "no_unblocked s"
    and "\<not> commits_unblocked (Activate e now_check now_commit license_key) s"
  shows "no_unblocked (snd (activate e now_check now_commit license_key s))"
proof (cases "fst (activate e now_check now_commit license_key s)")
  case (Inl err)
  then show ?thesis using assms(1) by (simp add: activate_raises)
next
  case (Inr u)
  then have ok: "fst (activate e now_check now_commit license_key s) = Inr ()" by simp
  then obtain r m where c: "authority_call e (trimmed license_key) s = Some (Some r, m)"
    and st: "snd (activate e now_check now_commit license_key s) =
             save_state e (s\<lparr>license := Some r, license_string := Some (key r),
                             last_refresh := Some now_commit\<rparr>)"
    using activate_returns[of e now_check now_commit license_key s] by blast
  have l: "license (snd (activate e now_check now_commit license_key s)) = Some r"
    by (simp add: st save_state_fields)
  have "block r"
    using assms(2) ok l authority_response_call[OF c] by simp
  then show ?thesis by (simp add: no_unblocked_def l)
qed

lemma refresh_step:
  assumes "no_unblocked s" and "\<not> commits_unblocked (Refresh e now) s"
  shows "no_unblocked (snd (refresh e now s))"
proof (cases "fst (refresh e now s)")
  case (Inl err)
  then show ?thesis using assms(1) by (simp add: refresh_raises)
next
  case (Inr u)
  then have ok: "fst (refresh e now s) = Inr ()" by simp
  then obtain k where k: "license_string s = Some k" "k \<noteq> []"
    by (cases "license_string s") (auto simp: refresh_def split: if_splits)
  obtain res where c: "authority_call e k s = Some res"
    using ok refresh_no_call[OF k(1), of e now] by (cases "authority_call e k s") auto
  show ?thesis
  proof (cases "fst res")
    case None
    then obtain l where "license s = Some l"
      and "refresh e now s =
             (Inr (), save_state e (s\<lparr>license := Some (l\<lparr>block := True\<rparr>),
                                      last_refresh := Some now\<rparr>))"
      using ok refresh_call[OF k c, of now]
      by (cases "license s") (auto split: if_splits)
    then show ?thesis by (simp add: no_unblocked_def save_state_fields)
  next
    case (Some r)
    then have res: "authority_call e k s = Some (Some r, snd res)" using c by (cases res) simp
    have st: "refresh e now s =
                (Inr (), save_state e (s\<lparr>license := Some r, last_refresh := Some now\<rparr>))"
      using refresh_commit[OF k res] .
    have l: "license (snd (refresh e now s)) = Some r" by (simp add: st save_state_fields)
    have "block r"
      using assms(2) ok l k(1) authority_response_call[OF res] by simp
    then show ?thesis by (simp add: no_unblocked_def l)
  qed
qed

lemma deactivate_step: "no_unblocked s \<Longrightarrow> no_unblocked (snd (deactivate e s))"
  by (simp add: deactivate_def no_unblocked_def)

lemma step_no_unblocked:
  "no_unblocked s \<Longrightarrow> \<not> commits_unblocked x s \<Longrightarrow> no_unblocked (step x s)"
  by (cases x) (simp_all add: activate_step refresh_step deactivate_step)

lemma sticky_run:
  "no_unblocked s \<Longrightarrow> \<not> no_unblocked (run ops s) \<Longrightarrow>
   \<exists>pre x post. ops = pre @ x # post \<and> commits_unblocked x (run pre s)"
proof (induction ops arbitrary: s)
  case Nil
  then show ?case by simp
next
  case (Cons x xs)
  show ?case
  proof (cases "commits_unblocked x s")
    case True
    then have "x # xs = [] @ x # xs \<and> commits_unblocked x (run [] s)" by simp
    then show ?thesis by blast
  next
    case False
    then have "no_unblocked (step x s)" using Cons.prems(1) by (rule step_no_unblocked[rotated])
    moreover have "\<not> no_unblocked (run xs (step x s))" using Cons.prems(2) by simp
    ultimately obtain pre y post
      where "xs = pre @ y # post" and "commits_unblocked y (run pre (step x s))"
      using Cons.IH by blast
    then have "x # xs = (x # pre) @ y # post \<and> commits_unblocked y (run (x # pre) s)" by simp
    then show ?thesis by blast
  qed
qed

text \<open>
  Claim C7. Start from a state whose cached record is blocked and run any sequence of
  operations. If the record cached at the end is not blocked, then some operation of the
  sequence was an \<open>activate()\<close> or a \<open>refresh()\<close> that returned normally and committed
  the record the authority gave it, with its block flag false. A refresh that raises
  leaves the blocked record cached, and the read operations change nothing.
\<close>

theorem blocked_is_sticky:
  assumes "license s = Some l" and "block l"
  shows "(\<forall>l'. license (run ops s) = Some l' \<and> \<not> block l' \<longrightarrow>
            (\<exists>pre x post. ops = pre @ x # post \<and> commits_unblocked x (run pre s))) \<and>
         (\<forall>e now err. fst (refresh e now s) = Inl err \<longrightarrow>
            license (snd (refresh e now s)) = Some l) \<and>
         (\<forall>e now_r now_a now_m now.
            step (Status e now_r now_a now_m) s = s \<and> step (IsActive e now) s = s \<and>
            step (InactiveReason e now) s = s)"
proof (intro conjI allI impI)
  fix l' assume h: "license (run ops s) = Some l' \<and> \<not> block l'"
  have "no_unblocked s" using assms by (simp add: no_unblocked_def)
  moreover have "\<not> no_unblocked (run ops s)" using h by (simp add: no_unblocked_def)
  ultimately show "\<exists>pre x post. ops = pre @ x # post \<and> commits_unblocked x (run pre s)"
    by (rule sticky_run)
next
  fix e now err assume "fst (refresh e now s) = Inl err"
  then show "license (snd (refresh e now s)) = Some l" using assms(1) by (simp add: refresh_raises)
qed simp_all



theorem blocked_is_sticky_witness:
  "\<exists>pre x post.
     [Refresh (ex_env (None, Some ''Could not contact the server.'')) ex_later,
      Status (ex_env (None, None)) ex_later ex_later ex_later,
      Refresh (ex_env (Some ex_license, None)) ex_later] = pre @ x # post \<and>
     commits_unblocked x (run pre (ex_manager (ex_license\<lparr>block := True\<rparr>)))"
proof -
  have a: "license (ex_manager (ex_license\<lparr>block := True\<rparr>)) = Some (ex_license\<lparr>block := True\<rparr>)"
    by (simp add: ex_manager_def)
  have b: "block (ex_license\<lparr>block := True\<rparr>)" by simp
  have k: "license_string (ex_manager (ex_license\<lparr>block := True\<rparr>)) = Some ''ABCD-1234-EFGH-5678''"
    by (simp add: ex_manager_def ex_license_def)
  have n: "''ABCD-1234-EFGH-5678'' \<noteq> []" by simp
  have m: "\<not> str_in ''blocked'' (lower (error_msg (Some ''Could not contact the server.'')
             ''License refresh failed.''))" by code_simp
  have r1: "snd (refresh (ex_env (None, Some ''Could not contact the server.'')) ex_later
                  (ex_manager (ex_license\<lparr>block := True\<rparr>))) =
            ex_manager (ex_license\<lparr>block := True\<rparr>)"
    using refresh_call[OF k n ex_authority_call, of "(None, Some ''Could not contact the server.'')"
        ex_later] m by simp
  have r2: "license (snd (refresh (ex_env (Some ex_license, None)) ex_later
                  (ex_manager (ex_license\<lparr>block := True\<rparr>)))) = Some ex_license"
    using refresh_commit[OF k n ex_authority_call, of ex_license None ex_later]
    by (simp add: save_state_fields)
  have c: "license (run [Refresh (ex_env (None, Some ''Could not contact the server.'')) ex_later,
      Status (ex_env (None, None)) ex_later ex_later ex_later,
      Refresh (ex_env (Some ex_license, None)) ex_later]
      (ex_manager (ex_license\<lparr>block := True\<rparr>))) = Some ex_license \<and> \<not> block ex_license"
  proof -
    have "run [Refresh (ex_env (None, Some ''Could not contact the server.'')) ex_later,
      Status (ex_env (None, None)) ex_later ex_later ex_later,
      Refresh (ex_env (Some ex_license, None)) ex_later]
      (ex_manager (ex_license\<lparr>block := True\<rparr>)) =
      snd (refresh (ex_env (Some ex_license, None)) ex_later
                  (ex_manager (ex_license\<lparr>block := True\<rparr>)))"
      by (simp only: run.simps step.simps r1)
    moreover have "\<not> block ex_license" by (simp add: ex_license_def)
    ultimately show ?thesis using r2 by simp
  qed
  show ?thesis using blocked_is_sticky[OF a b, of "[Refresh (ex_env (None, Some ''Could not contact the server.'')) ex_later,
      Status (ex_env (None, None)) ex_later ex_later ex_later,
      Refresh (ex_env (Some ex_license, None)) ex_later]"] c by blast
qed
















end
